theory Spec2Isabelle
  imports Main "HOL-Library.Char_ord" "HOL-Library.List_Lexorder" "HOL-Library.Log_Nat"
begin

section \<open>Exceptions as values\<close>

text \<open>
  Every exception the modelled code can raise is a constructor of \<open>error\<close>; a function
  that may raise returns \<open>error + 'a\<close>, with \<open>Inl\<close> for the exception.
  \<open>ImageError\<close> stands for the failure of reading and converting the image
  file, \<open>TransformError\<close> for any exception raised inside the caller's transform.
\<close>

datatype error =
    AttributeError | IndexError | KeyError | TypeError | ValueError
  | NotFittedError | ImageError | TransformError

definition and_then :: "error + 'a \<Rightarrow> ('a \<Rightarrow> error + 'b) \<Rightarrow> error + 'b" where
  "and_then m f = (case m of Inl e \<Rightarrow> Inl e | Inr x \<Rightarrow> f x)"

text \<open>A Python loop that appends one computed item per element and stops at the first
  exception.\<close>

fun map_err :: "('a \<Rightarrow> error + 'b) \<Rightarrow> 'a list \<Rightarrow> error + 'b list" where
  "map_err f [] = Inr []"
| "map_err f (x # xs) =
     and_then (f x) (\<lambda>y. and_then (map_err f xs) (\<lambda>ys. Inr (y # ys)))"

section \<open>Python built-ins used by the flattener\<close>

text \<open>
  \<open>int(s)\<close> on a string, base 10, for ASCII text: surrounding whitespace is stripped,
  one sign is allowed, then decimal digits, where single underscores may stand between
  two digits. Anything else raises \<open>ValueError\<close>.
\<close>

definition is_space :: "char \<Rightarrow> bool" where
  "is_space c = (let n = (of_char c :: nat) in (9 \<le> n \<and> n \<le> 13) \<or> (28 \<le> n \<and> n \<le> 32))"

definition is_digit :: "char \<Rightarrow> bool" where
  "is_digit c = (let n = (of_char c :: nat) in 48 \<le> n \<and> n \<le> 57)"

definition digit_value :: "char \<Rightarrow> nat" where
  "digit_value c = of_char c - 48"

definition strip :: "string \<Rightarrow> string" where
  "strip s = rev (dropWhile is_space (rev (dropWhile is_space s)))"

text \<open>\<open>after_digit\<close> tells whether the previous character was a digit: an underscore
  is accepted only then, and the text cannot end right after an underscore.\<close>

fun digits :: "nat \<Rightarrow> bool \<Rightarrow> string \<Rightarrow> nat option" where
  "digits acc after_digit [] = (if after_digit then Some acc else None)"
| "digits acc after_digit (c # cs) =
     (if is_digit c then digits (10 * acc + digit_value c) True cs
      else if c = CHR ''_'' \<and> after_digit then digits acc False cs
      else None)"

definition py_int :: "string \<Rightarrow> error + int" where
  "py_int s =
     (case strip s of
        [] \<Rightarrow> Inl ValueError
      | c # cs \<Rightarrow>
          if c = CHR ''-'' then
            (case digits 0 False cs of None \<Rightarrow> Inl ValueError | Some n \<Rightarrow> Inr (- int n))
          else if c = CHR ''+'' then
            (case digits 0 False cs of None \<Rightarrow> Inl ValueError | Some n \<Rightarrow> Inr (int n))
          else
            (case digits 0 False (c # cs) of None \<Rightarrow> Inl ValueError | Some n \<Rightarrow> Inr (int n)))"

text \<open>\<open>os.path.join(a, b)\<close> with two arguments, as \<open>posixpath\<close> computes it.\<close>

definition os_path_join :: "string \<Rightarrow> string \<Rightarrow> string" where
  "os_path_join a b =
     (if (b \<noteq> [] \<and> hd b = CHR ''/'') \<or> a = [] then b
      else if last a = CHR ''/'' then a @ b
      else a @ CHR ''/'' # b)"

section \<open>Annotation documents\<close>

text \<open>
  A parsed annotation file is the root \<open>Element\<close> of its tree: a tag, the text before
  the first child (\<open>None\<close> when the element has none) and the child elements in
  document order.
\<close>

datatype element = Element (elem_tag: string) (elem_text: "string option")
  (elem_children: "element list")

text \<open>\<open>e.find(t)\<close>: the first direct child with tag \<open>t\<close>, or \<open>None\<close>.
  \<open>e.findall(t)\<close>: all direct children with tag \<open>t\<close>, in document order.\<close>

definition find_elem :: "string \<Rightarrow> element \<Rightarrow> element option" where
  "find_elem t e = List.find (\<lambda>c. elem_tag c = t) (elem_children e)"

definition findall :: "string \<Rightarrow> element \<Rightarrow> element list" where
  "findall t e = filter (\<lambda>c. elem_tag c = t) (elem_children e)"

text \<open>\<open>x.text\<close> where \<open>x\<close> is the result of a \<open>find\<close>: \<open>AttributeError\<close> on \<open>None\<close>.\<close>

definition text_of :: "element option \<Rightarrow> error + string option" where
  "text_of eo = (case eo of None \<Rightarrow> Inl AttributeError | Some e \<Rightarrow> Inr (elem_text e))"

text \<open>\<open>int(t)\<close> where \<open>t\<close> is an element's text: \<open>TypeError\<close> on \<open>None\<close>.\<close>

definition int_of_text :: "string option \<Rightarrow> error + int" where
  "int_of_text t = (case t of None \<Rightarrow> Inl TypeError | Some s \<Rightarrow> py_int s)"

text \<open>\<open>int(bbx.find(name).text)\<close> where \<open>bbx\<close> is itself the result of a \<open>find\<close>.\<close>

definition coord :: "element option \<Rightarrow> string \<Rightarrow> error + int" where
  "coord bbx name =
     (case bbx of
        None \<Rightarrow> Inl AttributeError
      | Some b \<Rightarrow> and_then (text_of (find_elem name b)) int_of_text)"

text \<open>\<open>int(root.find("size")[i].text)\<close>: subscripting \<open>None\<close> is a \<open>TypeError\<close>, a
  child index out of range an \<open>IndexError\<close>.\<close>

definition size_entry :: "element \<Rightarrow> nat \<Rightarrow> error + int" where
  "size_entry doc i =
     (case find_elem ''size'' doc of
        None \<Rightarrow> Inl TypeError
      | Some s \<Rightarrow>
          if i < length (elem_children s) then int_of_text (elem_text (elem_children s ! i))
          else Inl IndexError)"

text \<open>The tuple appended to \<open>xml_list\<close> for one \<open>object\<close> entry, in the order the
  source evaluates its parts.\<close>

type_synonym value_tuple =
  "string option \<times> int \<times> int \<times> string option \<times> int \<times> int \<times> int \<times> int"

definition member_value :: "element \<Rightarrow> element \<Rightarrow> error + value_tuple" where
  "member_value doc member =
     (let bbx = find_elem ''bndbox'' member in
      and_then (coord bbx ''xmin'') (\<lambda>x0.
      and_then (coord bbx ''ymin'') (\<lambda>y0.
      and_then (coord bbx ''xmax'') (\<lambda>x1.
      and_then (coord bbx ''ymax'') (\<lambda>y1.
      and_then (text_of (find_elem ''name'' member)) (\<lambda>label.
      and_then (text_of (find_elem ''filename'' doc)) (\<lambda>fname.
      and_then (size_entry doc 0) (\<lambda>w.
      and_then (size_entry doc 1) (\<lambda>h.
      Inr (fname, w, h, label, x0, y0, x1, y1))))))))))"

definition root_values :: "element \<Rightarrow> error + value_tuple list" where
  "root_values doc = map_err (member_value doc) (findall ''object'' doc)"

definition xml_list :: "element list \<Rightarrow> error + value_tuple list" where
  "xml_list docs = and_then (map_err root_values docs) (\<lambda>vs. Inr (concat vs))"

section \<open>The table\<close>

record ann_row =
  filename :: string
  width :: int
  height :: int
  class_name :: "string option"
  xmin :: int
  ymin :: int
  xmax :: int
  ymax :: int

text \<open>The data frame: its rows (the eight columns of \<open>column_name\<close>; column
  \<open>class\<close> is the field \<open>class_name\<close>) and the column \<open>labels\<close>, which exists
  only when the flattener has added it.\<close>

record dataframe =
  rows :: "ann_row list"
  labels :: "int list option"

text \<open>One row of the frame with its \<open>filename\<close> replaced by
  \<open>os.path.join(image_dir, filename)\<close>; joining \<open>None\<close> is a \<open>TypeError\<close>.\<close>

definition make_row :: "string \<Rightarrow> value_tuple \<Rightarrow> error + ann_row" where
  "make_row image_dir v =
     (case v of (fname, w, h, label, x0, y0, x1, y1) \<Rightarrow>
        (case fname of
           None \<Rightarrow> Inl TypeError
         | Some f \<Rightarrow>
             Inr \<lparr>filename = os_path_join image_dir f, width = w, height = h,
                  class_name = label, xmin = x0, ymin = y0, xmax = x1, ymax = y1\<rparr>))"

section \<open>The label encoder\<close>

text \<open>
  The state of the module-level \<open>LabelEncoder\<close> is its attribute \<open>classes_\<close>:
  \<open>None\<close> before the first fit, afterwards the sorted distinct values it was fitted on
  (a missing class text, \<open>None\<close>, sorts after every string).
  \<open>fit_transform\<close> learns the classes of its argument and returns the position of
  each value among them; \<open>transform\<close> returns the positions under the classes learnt
  before, and raises \<open>NotFittedError\<close> when there are none.
\<close>

type_synonym label_encoder = "string option list option"

definition classes_of :: "string option list \<Rightarrow> string option list" where
  "classes_of ys =
     map Some (sort (remdups (List.map_filter id ys))) @ (if None \<in> set ys then [None] else [])"

fun index_of :: "'a list \<Rightarrow> 'a \<Rightarrow> nat option" where
  "index_of [] y = None"
| "index_of (x # xs) y = (if x = y then Some 0 else map_option Suc (index_of xs y))"

text \<open>Encoding against fixed classes: a value that is not among them raises
  \<open>ValueError\<close> (previously unseen label).\<close>

definition encode :: "string option list \<Rightarrow> string option list \<Rightarrow> error + int list" where
  "encode classes ys =
     map_err (\<lambda>y. case index_of classes y of None \<Rightarrow> Inl ValueError | Some i \<Rightarrow> Inr (int i)) ys"

definition fit_transform :: "string option list \<Rightarrow> (error + int list) \<times> label_encoder" where
  "fit_transform ys = (let classes = classes_of ys in (encode classes ys, Some classes))"

definition transform :: "label_encoder \<Rightarrow> string option list \<Rightarrow> error + int list" where
  "transform encoder ys =
     (case encoder of None \<Rightarrow> Inl NotFittedError | Some classes \<Rightarrow> encode classes ys)"

section \<open>The flattener\<close>

text \<open>
  \<open>convert_annotations_to_df\<close> on the parsed documents of the annotation directory, in
  the order \<open>glob\<close> lists them. The encoder is the module's global, passed in and
  returned.
\<close>

definition add_one :: "int list \<Rightarrow> int list" where
  "add_one ls = map (\<lambda>l. l + 1) ls"

text \<open>The rows of \<open>xml_df\<close> once the \<open>filename\<close> column has been rewritten, before
  any \<open>labels\<close> column is added.\<close>

definition xml_df :: "element list \<Rightarrow> string \<Rightarrow> error + ann_row list" where
  "xml_df docs image_dir = and_then (xml_list docs) (map_err (make_row image_dir))"

definition convert_annotations_to_df ::
  "element list \<Rightarrow> string \<Rightarrow> string \<Rightarrow> label_encoder \<Rightarrow> error + (dataframe \<times> label_encoder)" where
  "convert_annotations_to_df docs image_dir image_set encoder =
     and_then (xml_df docs image_dir) (\<lambda>rs.
       if image_set = ''train'' then
         (case fit_transform (map class_name rs) of (res, encoder') \<Rightarrow>
            and_then res (\<lambda>ls. Inr (\<lparr>rows = rs, labels = Some (add_one ls)\<rparr>, encoder')))
       else if image_set = ''val'' \<or> image_set = ''test'' then
         and_then (transform encoder (map class_name rs))
           (\<lambda>ls. Inr (\<lparr>rows = rs, labels = Some (add_one ls)\<rparr>, encoder))
       else Inr (\<lparr>rows = rs, labels = None\<rparr>, encoder))"

text \<open>The rows of a frame paired with their entry in column \<open>labels\<close> (no pairs
  when the frame has no such column).\<close>

definition labelled :: "dataframe \<Rightarrow> (ann_row \<times> int) list" where
  "labelled frame = (case labels frame of None \<Rightarrow> [] | Some ls \<Rightarrow> zip (rows frame) ls)"

section \<open>Numbers\<close>

text \<open>
  A Python float (or a zero-dimensional tensor holding one): not-a-number, the two
  infinities, or a finite value. Only comparisons are ever made on them here; every
  comparison with \<open>NaN\<close> is false.
\<close>

datatype pyfloat = NaN | NegInf | Fin real | PosInf

fun fl_lt :: "pyfloat \<Rightarrow> pyfloat \<Rightarrow> bool" where
  "fl_lt NaN b = False"
| "fl_lt a NaN = False"
| "fl_lt a NegInf = False"
| "fl_lt PosInf b = False"
| "fl_lt NegInf b = True"
| "fl_lt a PosInf = True"
| "fl_lt (Fin x) (Fin y) = (x < y)"

fun fl_le :: "pyfloat \<Rightarrow> pyfloat \<Rightarrow> bool" where
  "fl_le NaN b = False"
| "fl_le a NaN = False"
| "fl_le NegInf b = True"
| "fl_le a PosInf = True"
| "fl_le a NegInf = False"
| "fl_le PosInf b = False"
| "fl_le (Fin x) (Fin y) = (x \<le> y)"

text \<open>The built-ins \<open>min(a, b)\<close> and \<open>max(a, b)\<close>: the first argument is kept unless
  the second is strictly smaller (strictly greater).\<close>

definition py_min :: "pyfloat \<Rightarrow> pyfloat \<Rightarrow> pyfloat" where
  "py_min a b = (if fl_lt b a then b else a)"

definition py_max :: "pyfloat \<Rightarrow> pyfloat \<Rightarrow> pyfloat" where
  "py_max a b = (if fl_lt a b then b else a)"

text \<open>Arithmetic on an \<open>int64\<close> array wraps around.\<close>

definition int64 :: "int \<Rightarrow> int" where
  "int64 v = (v + 2 ^ 63) mod 2 ^ 64 - 2 ^ 63"

text \<open>Conversion of an \<open>int64\<close> value to \<open>float32\<close>: 24 significant bits, rounded to
  nearest, ties to even. The result is again an integer.\<close>

definition float32_of_int :: "int \<Rightarrow> int" where
  "float32_of_int v =
     (let a = \<bar>v\<bar>; e = nat (bitlen a - 24) in
      if e = 0 then v
      else
        (let q = a div 2 ^ e; r = a mod 2 ^ e; half = 2 ^ (e - 1);
             q' = (if half < r \<or> (r = half \<and> odd q) then q + 1 else q)
         in sgn v * (q' * 2 ^ e)))"

section \<open>Clamping boxes\<close>

type_synonym bbox = "pyfloat list"

definition clamp_value :: "pyfloat \<Rightarrow> pyfloat" where
  "clamp_value v = py_max (Fin 0) (py_min v (Fin 1))"

text \<open>One iteration of the loop of \<open>clamp_bbox_coordinates\<close>: a box of length 4, or
  else a box that unpacks into five names (any other length raises \<open>ValueError\<close>).\<close>

fun clamp_bbox :: "bbox \<Rightarrow> error + bbox" where
  "clamp_bbox [x_min, y_min, x_max, y_max] =
     Inr [clamp_value x_min, clamp_value y_min, clamp_value x_max, clamp_value y_max]"
| "clamp_bbox [x_min, y_min, x_max, y_max, class_id] =
     Inr [clamp_value x_min, clamp_value y_min, clamp_value x_max, clamp_value y_max, class_id]"
| "clamp_bbox bbox = Inl ValueError"

definition clamp_bbox_coordinates :: "bbox list \<Rightarrow> error + bbox list" where
  "clamp_bbox_coordinates bboxes = map_err clamp_bbox bboxes"

section \<open>The dataset\<close>

text \<open>\<open>Series.unique()\<close>: the distinct values in order of first appearance.\<close>

fun unique_from :: "'a list \<Rightarrow> 'a list \<Rightarrow> 'a list" where
  "unique_from seen [] = []"
| "unique_from seen (x # xs) =
     (if x \<in> set seen then unique_from seen xs else x # unique_from (x # seen) xs)"

definition unique :: "'a list \<Rightarrow> 'a list" where
  "unique xs = unique_from [] xs"

text \<open>
  The transform is the caller's: it receives the image, the boxes and the class labels
  and returns the three entries \<open>image\<close>, \<open>bboxes\<close>, \<open>class_labels\<close> of its result,
  or raises.
\<close>

type_synonym 'img transforms =
  "'img \<Rightarrow> bbox list \<Rightarrow> int list \<Rightarrow> error + ('img \<times> bbox list \<times> int list)"

record 'img PascalDataset =
  tfms :: "'img transforms"
  df :: dataframe
  image_ids :: "string list"

definition PascalDataset_init :: "dataframe \<Rightarrow> 'img transforms \<Rightarrow> 'img PascalDataset" where
  "PascalDataset_init frame transforms =
     \<lparr>tfms = transforms, df = frame, image_ids = unique (map filename (rows frame))\<rparr>"

definition PascalDataset_len :: "'img PascalDataset \<Rightarrow> nat" where
  "PascalDataset_len self = length (image_ids self)"

text \<open>Indexing an array with a Python integer: a negative index counts from the end.\<close>

definition py_index :: "'a list \<Rightarrow> int \<Rightarrow> error + 'a" where
  "py_index xs i =
     (if 0 \<le> i \<and> i < int (length xs) then Inr (xs ! nat i)
      else if i < 0 \<and> - int (length xs) \<le> i then Inr (xs ! nat (i + int (length xs)))
      else Inl IndexError)"

text \<open>The local function of \<open>__getitem__\<close>; unpacking a box that does not have four
  entries raises \<open>ValueError\<close>.\<close>

fun is_bbox_valid :: "bbox \<Rightarrow> error + bool" where
  "is_bbox_valid [x_min, y_min, x_max, y_max] =
     Inr (fl_le (Fin 0) x_min \<and> fl_le x_min (Fin 1) \<and> fl_le (Fin 0) y_min \<and> fl_le y_min (Fin 1)
        \<and> fl_le (Fin 0) x_max \<and> fl_le x_max (Fin 1) \<and> fl_le (Fin 0) y_max \<and> fl_le y_max (Fin 1))"
| "is_bbox_valid bbox = Inl ValueError"

text \<open>The comprehension \<open>[b for b in bs if p(b)]\<close> with a test that may raise.\<close>

fun filter_err :: "('a \<Rightarrow> error + bool) \<Rightarrow> 'a list \<Rightarrow> error + 'a list" where
  "filter_err p [] = Inr []"
| "filter_err p (x # xs) =
     and_then (p x) (\<lambda>keep.
     and_then (filter_err p xs) (\<lambda>ys. Inr (if keep then x # ys else ys)))"

text \<open>
  The frame stores a column of integers as \<open>int64\<close> exactly when every value of the
  column fits; a column with a value that does not fit is kept as \<open>uint64\<close> or as
  Python objects. \<open>int64_columns\<close> holds when all four coordinate columns of the frame
  are \<open>int64\<close> columns.
\<close>

definition int64_value :: "int \<Rightarrow> bool" where
  "int64_value v \<longleftrightarrow> - (2 ^ 63) \<le> v \<and> v < 2 ^ 63"

definition int64_columns :: "dataframe \<Rightarrow> bool" where
  "int64_columns frame \<longleftrightarrow>
     list_all (\<lambda>r. int64_value (xmin r) \<and> int64_value (ymin r)
                 \<and> int64_value (xmax r) \<and> int64_value (ymax r)) (rows frame)"

text \<open>
  The rows of one image and their boxes, the rows of the array
  \<open>records[["xmin", "ymin", "xmax", "ymax"]].values\<close>. Whatever the type of that
  array, an entry compares with 0 and 1 as the integer of the table does, and a box that
  passes the validity filter has the entries 0 and 1 only, which every array type holds
  exactly.
\<close>

definition records_of :: "dataframe \<Rightarrow> string \<Rightarrow> ann_row list" where
  "records_of frame image_id = filter (\<lambda>r. filename r = image_id) (rows frame)"

definition box_of :: "ann_row \<Rightarrow> bbox" where
  "box_of r = [Fin (of_int (xmin r)), Fin (of_int (ymin r)), Fin (of_int (xmax r)), Fin (of_int (ymax r))]"

text \<open>
  The area of one row of an \<open>int64\<close> array of boxes: the two differences and their
  product are taken in \<open>int64\<close>, the product is then stored as \<open>float32\<close>.
\<close>

definition area_of :: "ann_row \<Rightarrow> pyfloat" where
  "area_of r =
     Fin (of_int (float32_of_int (int64 (int64 (ymax r - ymin r) * int64 (xmax r - xmin r)))))"

text \<open>
  The tensor \<open>area\<close> of lines 142 and 143. When the coordinate columns are \<open>int64\<close>
  columns it is the list of the areas above. Otherwise the array of boxes has another
  type, and the result is what the array and tensor libraries make of it, a tensor or
  an exception: \<open>other_area\<close> stands for that, as a function of the frame and the rows
  of the image.
\<close>

definition area_column ::
  "(dataframe \<Rightarrow> ann_row list \<Rightarrow> error + pyfloat list) \<Rightarrow> dataframe \<Rightarrow> ann_row list
     \<Rightarrow> error + pyfloat list" where
  "area_column other_area frame records =
     (if int64_columns frame then Inr (map area_of records) else other_area frame records)"

text \<open>\<open>records["labels"].values.tolist()\<close>: \<open>KeyError\<close> when the frame has no such
  column.\<close>

definition labels_of :: "dataframe \<Rightarrow> string \<Rightarrow> error + int list" where
  "labels_of frame image_id =
     (case labels frame of
        None \<Rightarrow> Inl KeyError
      | Some ls \<Rightarrow> Inr (map snd (filter (\<lambda>(r, l). filename r = image_id) (zip (rows frame) ls))))"

text \<open>
  \<open>__getitem__\<close> up to the call of the transform: what the transform is called with
  (\<open>arg_image\<close>, \<open>arg_bboxes\<close>, \<open>arg_class_labels\<close>) and the two sequences computed
  before it. \<open>imread\<close> stands for reading the file and converting it to RGB,
  \<open>other_area\<close> for the area of a frame whose coordinate columns are not all
  \<open>int64\<close>.
\<close>

record 'img before_call =
  arg_image :: 'img
  arg_bboxes :: "bbox list"
  arg_class_labels :: "int list"
  the_area :: "pyfloat list"
  the_iscrowd :: "int list"

definition before_transform ::
  "(string \<Rightarrow> error + 'img) \<Rightarrow> (dataframe \<Rightarrow> ann_row list \<Rightarrow> error + pyfloat list)
     \<Rightarrow> 'img PascalDataset \<Rightarrow> int \<Rightarrow> error + 'img before_call" where
  "before_transform imread other_area self index =
     and_then (py_index (image_ids self) index) (\<lambda>image_id.
     and_then (imread image_id) (\<lambda>im.
       let records = records_of (df self) image_id;
           boxes = map box_of records
       in
       and_then (area_column other_area (df self) records) (\<lambda>area.
       and_then (labels_of (df self) image_id) (\<lambda>class_labels.
         let iscrowd = replicate (length records) 0 in
         and_then (filter_err is_bbox_valid boxes) (\<lambda>f_boxes.
           Inr \<lparr>arg_image = im, arg_bboxes = f_boxes, arg_class_labels = class_labels,
                the_area = area, the_iscrowd = iscrowd\<rparr>)))))"

record target =
  target_image_id :: int
  target_boxes :: "bbox list"
  target_labels :: "int list"
  target_area :: "pyfloat list"
  target_iscrowd :: "int list"

text \<open>What \<open>__getitem__\<close> returns: \<open>None\<close>, or the triple of image, target and
  image index.\<close>

datatype 'img item = Skip | Sample 'img target int

text \<open>\<open>as_float32\<close> stands for the rounding of one box entry when the boxes are made a
  \<open>float32\<close> tensor.\<close>

definition PascalDataset_getitem ::
  "(string \<Rightarrow> error + 'img) \<Rightarrow> (dataframe \<Rightarrow> ann_row list \<Rightarrow> error + pyfloat list)
     \<Rightarrow> (pyfloat \<Rightarrow> pyfloat) \<Rightarrow> 'img PascalDataset \<Rightarrow> int \<Rightarrow> error + 'img item" where
  "PascalDataset_getitem imread other_area as_float32 self index =
     and_then (before_transform imread other_area self index) (\<lambda>b.
     and_then (tfms self (arg_image b) (arg_bboxes b) (arg_class_labels b)) (\<lambda>tran.
       case tran of (img, transformed_boxes, class_labels) \<Rightarrow>
         and_then (filter_err is_bbox_valid transformed_boxes) (\<lambda>filtered_bboxes.
           if length filtered_bboxes \<noteq> length transformed_boxes then Inr Skip
           else
             and_then (clamp_bbox_coordinates (map (map as_float32) filtered_bboxes)) (\<lambda>boxes.
               Inr (Sample img
                     \<lparr>target_image_id = index, target_boxes = boxes, target_labels = class_labels,
                      target_area = the_area b, target_iscrowd = the_iscrowd b\<rparr>
                     index)))))"

section \<open>Example inputs\<close>

text \<open>Small annotation documents, the frames flattened from them, and a few transforms,
  on which the theorems below are instantiated. An image is stood for by its path.\<close>

definition leaf :: "string \<Rightarrow> string \<Rightarrow> element" where
  "leaf t s = Element t (Some s) []"

definition object_entry :: "string \<Rightarrow> string \<Rightarrow> string \<Rightarrow> string \<Rightarrow> string \<Rightarrow> element" where
  "object_entry n x0 y0 x1 y1 =
     Element ''object'' None
       [leaf ''name'' n,
        Element ''bndbox'' None
          [leaf ''xmin'' x0, leaf ''ymin'' y0, leaf ''xmax'' x1, leaf ''ymax'' y1]]"

text \<open>Image \<open>a.jpg\<close>, 100 by 80, a cat at \<open>(0,0,1,1)\<close> and a dog at
  \<open>(10,10,50,50)\<close>.\<close>

definition doc_a :: element where
  "doc_a =
     Element ''annotation'' None
       [leaf ''filename'' ''a.jpg'',
        Element ''size'' None [leaf ''width'' ''100'', leaf ''height'' ''80'', leaf ''depth'' ''3''],
        object_entry ''cat'' ''0'' ''0'' ''1'' ''1'',
        object_entry ''dog'' ''10'' ''10'' ''50'' ''50'']"

text \<open>Image \<open>b.jpg\<close>, whose \<open>size\<close> element lists \<open>depth\<close> first, then \<open>height\<close>,
  then \<open>width\<close>; one dog.\<close>

definition doc_b :: element where
  "doc_b =
     Element ''annotation'' None
       [leaf ''filename'' ''b.jpg'',
        Element ''size'' None [leaf ''depth'' ''3'', leaf ''height'' ''60'', leaf ''width'' ''120''],
        object_entry ''dog'' ''5'' ''5'' ''20'' ''20'']"

text \<open>Image \<open>c.jpg\<close> with a bird, and image \<open>d.jpg\<close> without any object.\<close>

definition doc_c :: element where
  "doc_c =
     Element ''annotation'' None
       [leaf ''filename'' ''c.jpg'',
        Element ''size'' None [leaf ''width'' ''64'', leaf ''height'' ''64''],
        object_entry ''bird'' ''1'' ''2'' ''3'' ''4'']"

definition doc_d :: element where
  "doc_d =
     Element ''annotation'' None
       [leaf ''filename'' ''d.jpg'',
        Element ''size'' None [leaf ''width'' ''64'', leaf ''height'' ''64'']]"

text \<open>Image \<open>u.jpg\<close> with a single cat at \<open>(0,0,1,1)\<close>.\<close>

definition doc_u :: element where
  "doc_u =
     Element ''annotation'' None
       [leaf ''filename'' ''u.jpg'',
        Element ''size'' None [leaf ''width'' ''1'', leaf ''height'' ''1''],
        object_entry ''cat'' ''0'' ''0'' ''1'' ''1'']"

definition row_cat :: ann_row where
  "row_cat = \<lparr>filename = ''imgs/a.jpg'', width = 100, height = 80, class_name = Some ''cat'',
              xmin = 0, ymin = 0, xmax = 1, ymax = 1\<rparr>"

definition row_dog :: ann_row where
  "row_dog = \<lparr>filename = ''imgs/a.jpg'', width = 100, height = 80, class_name = Some ''dog'',
              xmin = 10, ymin = 10, xmax = 50, ymax = 50\<rparr>"

definition row_b :: ann_row where
  "row_b = \<lparr>filename = ''imgs/b.jpg'', width = 3, height = 60, class_name = Some ''dog'',
            xmin = 5, ymin = 5, xmax = 20, ymax = 20\<rparr>"

definition row_c :: ann_row where
  "row_c = \<lparr>filename = ''imgs/c.jpg'', width = 64, height = 64, class_name = Some ''bird'',
            xmin = 1, ymin = 2, xmax = 3, ymax = 4\<rparr>"

definition row_u :: ann_row where
  "row_u = \<lparr>filename = ''imgs/u.jpg'', width = 1, height = 1, class_name = Some ''cat'',
            xmin = 0, ymin = 0, xmax = 1, ymax = 1\<rparr>"

definition frame_a :: dataframe where
  "frame_a = \<lparr>rows = [row_cat, row_dog], labels = Some [1, 2]\<rparr>"

definition frame_b :: dataframe where
  "frame_b = \<lparr>rows = [row_b], labels = Some [2]\<rparr>"

definition frame_u :: dataframe where
  "frame_u = \<lparr>rows = [row_u], labels = Some [1]\<rparr>"

definition encoder_a :: label_encoder where
  "encoder_a = Some [Some ''cat'', Some ''dog'']"

definition read_path :: "string \<Rightarrow> error + string" where
  "read_path p = Inr p"

text \<open>A stand-in for the area of frames with a coordinate outside \<open>int64\<close>; the
  frames above have none.\<close>

definition no_other_area :: "dataframe \<Rightarrow> ann_row list \<Rightarrow> error + pyfloat list" where
  "no_other_area frame records = Inl TypeError"

text \<open>Transforms: one that returns what it was given, one that drops every box and
  label, one that returns a smaller box, one that returns a box reaching to 1.5.\<close>

definition keep_all :: "string transforms" where
  "keep_all im bs ls = Inr (im, bs, ls)"

definition drop_all :: "string transforms" where
  "drop_all im bs ls = Inr (im, [], [])"

definition shrink :: "string transforms" where
  "shrink im bs ls = Inr (im, [[Fin 0, Fin 0, Fin (1 / 2), Fin (1 / 2)]], [1])"

definition push_out :: "string transforms" where
  "push_out im bs ls = Inr (im, [[Fin 0, Fin 0, Fin (3 / 2), Fin 1]], [1])"

definition some_boxes :: "bbox list" where
  "some_boxes =
     [[Fin (- (1 / 2)), Fin (1 / 4), Fin (3 / 2), NaN],
      [PosInf, NegInf, Fin 1, Fin 0, Fin 7]]"

definition some_boxes_clamped :: "bbox list" where
  "some_boxes_clamped =
     [[Fin 0, Fin (1 / 4), Fin 1, Fin 0],
      [Fin 1, Fin 0, Fin 1, Fin 0, Fin 7]]"

text \<open>What \<open>__getitem__(0)\<close> has computed on \<open>frame_u\<close> when it calls the
  transform.\<close>

definition before_u :: "string before_call" where
  "before_u =
     \<lparr>arg_image = ''imgs/u.jpg'', arg_bboxes = [[Fin 0, Fin 0, Fin 1, Fin 1]],
      arg_class_labels = [1], the_area = [Fin 1], the_iscrowd = [0]\<rparr>"

section \<open>Relations used in the proofs\<close>

text \<open>\<open>doc_rows image_dir doc part\<close>: \<open>part\<close> is the list of rows that the
  flattener makes of document \<open>doc\<close>.\<close>

definition doc_rows :: "string \<Rightarrow> element \<Rightarrow> ann_row list \<Rightarrow> bool" where
  "doc_rows image_dir doc part \<longleftrightarrow>
     (\<exists>vs. root_values doc = Inr vs \<and> map_err (make_row image_dir) vs = Inr part)"

text \<open>\<open>clamped_box b c\<close>: \<open>c\<close> has the length of \<open>b\<close>, its first four entries are
  those of \<open>b\<close> clamped and lie in the unit interval, and a fifth entry is that of
  \<open>b\<close>.\<close>

definition clamped_box :: "bbox \<Rightarrow> bbox \<Rightarrow> bool" where
  "clamped_box b c \<longleftrightarrow>
     length c = length b \<and>
     (\<forall>j<4. c ! j = py_max (Fin 0) (py_min (b ! j) (Fin 1))
        \<and> fl_le (Fin 0) (c ! j) \<and> fl_le (c ! j) (Fin 1)) \<and>
     (length b = 5 \<longrightarrow> c ! 4 = b ! 4)"

section \<open>Results and loops\<close>

lemma and_then_Inl [simp]: "and_then (Inl e) f = Inl e"
  by (simp add: and_then_def)

lemma and_then_Inr [simp]: "and_then (Inr x) f = f x"
  by (simp add: and_then_def)

lemma and_then_eq_Inr: "and_then m f = Inr y \<longleftrightarrow> (\<exists>x. m = Inr x \<and> f x = Inr y)"
  by (cases m) simp_all

lemma map_err_eq_Inr: "map_err f xs = Inr ys \<longleftrightarrow> list_all2 (\<lambda>x y. f x = Inr y) xs ys"
proof (induction xs arbitrary: ys)
  case Nil
  show ?case by auto
next
  case (Cons x xs)
  show ?case
    by (cases ys) (auto simp: and_then_eq_Inr Cons.IH)
qed

lemma list_all2_concat_split:
  "list_all2 P (concat xss) ys \<Longrightarrow> \<exists>yss. ys = concat yss \<and> list_all2 (list_all2 P) xss yss"
proof (induction xss arbitrary: ys)
  case Nil
  then show ?case by simp
next
  case (Cons xs xss)
  from Cons.prems obtain us vs where ys: "ys = us @ vs" and us: "list_all2 P xs us"
    and vs: "list_all2 P (concat xss) vs"
    by (auto simp: list_all2_append1)
  from Cons.IH [OF vs] obtain yss where "vs = concat yss" "list_all2 (list_all2 P) xss yss"
    by blast
  with ys us have "ys = concat (us # yss) \<and> list_all2 (list_all2 P) (xs # xss) (us # yss)"
    by simp
  then show ?case by blast
qed

lemma map_err_Inl: "map_err f xs = Inl e \<Longrightarrow> \<exists>x\<in>set xs. f x = Inl e"
proof (induction xs)
  case Nil
  then show ?case by simp
next
  case (Cons x xs)
  then show ?case
    by (cases "f x"; cases "map_err f xs") auto
qed

lemma filter_err_total:
  assumes "\<forall>x\<in>set xs. \<exists>k. p x = Inr k"
  shows "filter_err p xs = Inr (filter (\<lambda>x. p x = Inr True) xs)"
  using assms by (induction xs) auto

section \<open>The flattener: rows\<close>

lemma member_value_fields:
  assumes "member_value doc m = Inr (fname, w, h, label, x0, y0, x1, y1)"
  shows "text_of (find_elem ''filename'' doc) = Inr fname \<and> size_entry doc 0 = Inr w \<and> size_entry doc 1 = Inr h
    \<and> text_of (find_elem ''name'' m) = Inr label"
  using assms by (auto simp: member_value_def Let_def and_then_eq_Inr)

lemma make_row_fields:
  assumes "make_row image_dir (fname, w, h, label, x0, y0, x1, y1) = Inr r"
  shows "\<exists>f. fname = Some f \<and> filename r = os_path_join image_dir f \<and> width r = w \<and> height r = h
    \<and> class_name r = label \<and> xmin r = x0 \<and> ymin r = y0 \<and> xmax r = x1 \<and> ymax r = y1"
  using assms by (auto simp: make_row_def split: option.splits)

lemma xml_df_parts:
  assumes "xml_df docs image_dir = Inr rs"
  shows "\<exists>parts. rs = concat parts \<and> list_all2 (doc_rows image_dir) docs parts"
proof -
  from assms obtain vss where vss: "map_err root_values docs = Inr vss"
    and rs: "map_err (make_row image_dir) (concat vss) = Inr rs"
    by (auto simp: xml_df_def xml_list_def and_then_eq_Inr)
  from rs have "list_all2 (\<lambda>v r. make_row image_dir v = Inr r) (concat vss) rs"
    by (simp add: map_err_eq_Inr)
  then obtain parts where parts: "rs = concat parts"
    and all: "list_all2 (list_all2 (\<lambda>v r. make_row image_dir v = Inr r)) vss parts"
    using list_all2_concat_split by blast
  from vss have docs: "list_all2 (\<lambda>d vs. root_values d = Inr vs) docs vss"
    by (simp add: map_err_eq_Inr)
  have "list_all2 (doc_rows image_dir) docs parts"
    unfolding list_all2_conv_all_nth
  proof (intro conjI allI impI)
    show "length docs = length parts"
      using docs all by (simp add: list_all2_lengthD)
  next
    fix i assume i: "i < length docs"
    from docs i have 1: "root_values (docs ! i) = Inr (vss ! i)"
      by (simp add: list_all2_conv_all_nth)
    from docs all i have "list_all2 (\<lambda>v r. make_row image_dir v = Inr r) (vss ! i) (parts ! i)"
      by (simp add: list_all2_conv_all_nth)
    then have 2: "map_err (make_row image_dir) (vss ! i) = Inr (parts ! i)"
      by (simp add: map_err_eq_Inr)
    from 1 2 show "doc_rows image_dir (docs ! i) (parts ! i)"
      unfolding doc_rows_def by blast
  qed
  with parts show ?thesis by blast
qed

lemma doc_rows_length:
  assumes "doc_rows image_dir doc part"
  shows "length part = length (findall ''object'' doc)"
proof -
  from assms obtain vs where "list_all2 (\<lambda>m v. member_value doc m = Inr v) (findall ''object'' doc) vs"
    and "list_all2 (\<lambda>v r. make_row image_dir v = Inr r) vs part"
    by (auto simp: doc_rows_def root_values_def map_err_eq_Inr)
  then have "length (findall ''object'' doc) = length vs" and "length vs = length part"
    by (simp_all add: list_all2_lengthD)
  then show ?thesis by simp
qed

lemma doc_rows_member:
  assumes "doc_rows image_dir doc part" and "r \<in> set part"
  shows "\<exists>m v. m \<in> set (findall ''object'' doc) \<and> member_value doc m = Inr v \<and> make_row image_dir v = Inr r"
proof -
  from assms(1) obtain vs where vs: "list_all2 (\<lambda>m v. member_value doc m = Inr v) (findall ''object'' doc) vs"
    and part: "list_all2 (\<lambda>v r. make_row image_dir v = Inr r) vs part"
    by (auto simp: doc_rows_def root_values_def map_err_eq_Inr)
  from assms(2) obtain i where i: "i < length part" "part ! i = r"
    by (auto simp: in_set_conv_nth)
  with vs part have "findall ''object'' doc ! i \<in> set (findall ''object'' doc)"
    "member_value doc (findall ''object'' doc ! i) = Inr (vs ! i)" "make_row image_dir (vs ! i) = Inr r"
    by (auto simp: list_all2_conv_all_nth)
  then show ?thesis by blast
qed

lemma doc_rows_fields:
  assumes "doc_rows image_dir doc part" and "r \<in> set part"
  shows "\<exists>f. text_of (find_elem ''filename'' doc) = Inr (Some f) \<and> filename r = os_path_join image_dir f
     \<and> size_entry doc 0 = Inr (width r) \<and> size_entry doc 1 = Inr (height r)"
proof -
  from doc_rows_member [OF assms] obtain m v where v: "member_value doc m = Inr v" "make_row image_dir v = Inr r"
    by blast
  obtain fname w h label x0 y0 x1 y1 where "v = (fname, w, h, label, x0, y0, x1, y1)"
    by (cases v) auto
  with v have mv: "member_value doc m = Inr (fname, w, h, label, x0, y0, x1, y1)"
    and mr: "make_row image_dir (fname, w, h, label, x0, y0, x1, y1) = Inr r"
    by simp_all
  from member_value_fields [OF mv] make_row_fields [OF mr] show ?thesis
    by auto
qed

lemma convert_rows:
  assumes "convert_annotations_to_df docs image_dir image_set encoder = Inr (frame, encoder')"
  shows "xml_df docs image_dir = Inr (rows frame)"
  using assms
  by (auto simp: convert_annotations_to_df_def and_then_eq_Inr split: if_splits prod.splits)

lemma size_entry_position:
  assumes "size_entry doc 0 = Inr w" and "size_entry doc 1 = Inr h"
  shows "\<exists>s c0 c1 more. find_elem ''size'' doc = Some s \<and> elem_children s = c0 # c1 # more
     \<and> int_of_text (elem_text c0) = Inr w \<and> int_of_text (elem_text c1) = Inr h"
proof -
  from assms obtain s where s: "find_elem ''size'' doc = Some s" "1 < length (elem_children s)"
    "int_of_text (elem_text (elem_children s ! 0)) = Inr w"
    "int_of_text (elem_text (elem_children s ! 1)) = Inr h"
    by (auto simp: size_entry_def split: option.splits if_splits)
  from s(2) obtain c0 c1 more where "elem_children s = c0 # c1 # more"
    by (cases "elem_children s"; cases "tl (elem_children s)") auto
  with s show ?thesis by auto
qed

text \<open>
  Claim C4. Whenever flattening returns a table, its rows are the concatenation of one
  block per annotation document, in document order; the block of a document with \<open>k\<close>
  \<open>object\<close> entries has exactly \<open>k\<close> rows (none when \<open>k = 0\<close>), and every row of the
  block carries the text of that document's \<open>filename\<close> element joined onto
  \<open>image_dir\<close>, and the width and height read from that document's \<open>size\<close> element.
\<close>

theorem flatten_rows_per_document:
  assumes "convert_annotations_to_df docs image_dir image_set encoder = Inr (frame, encoder')"
  shows "\<exists>parts. rows frame = concat parts \<and>
    list_all2 (\<lambda>doc part.
       length part = length (findall ''object'' doc) \<and>
       (\<forall>r\<in>set part. \<exists>f. text_of (find_elem ''filename'' doc) = Inr (Some f)
          \<and> filename r = os_path_join image_dir f
          \<and> size_entry doc 0 = Inr (width r) \<and> size_entry doc 1 = Inr (height r))) docs parts"
proof -
  from convert_rows [OF assms] obtain parts where parts: "rows frame = concat parts"
    and all: "list_all2 (doc_rows image_dir) docs parts"
    using xml_df_parts by blast
  from all have "list_all2 (\<lambda>doc part.
       length part = length (findall ''object'' doc) \<and>
       (\<forall>r\<in>set part. \<exists>f. text_of (find_elem ''filename'' doc) = Inr (Some f)
          \<and> filename r = os_path_join image_dir f
          \<and> size_entry doc 0 = Inr (width r) \<and> size_entry doc 1 = Inr (height r))) docs parts"
  proof (rule list_all2_mono)
    fix doc part
    assume dr: "doc_rows image_dir doc part"
    show "length part = length (findall ''object'' doc) \<and>
       (\<forall>r\<in>set part. \<exists>f. text_of (find_elem ''filename'' doc) = Inr (Some f)
          \<and> filename r = os_path_join image_dir f
          \<and> size_entry doc 0 = Inr (width r) \<and> size_entry doc 1 = Inr (height r))"
      using doc_rows_length [OF dr] doc_rows_fields [OF dr] by simp
  qed
  with parts show ?thesis by blast
qed

theorem flatten_rows_per_document_witness:
  "convert_annotations_to_df [doc_a, doc_d] ''imgs'' ''train'' None = Inr (frame_a, encoder_a)
   \<and> length (findall ''object'' doc_a) = 2 \<and> length (findall ''object'' doc_d) = 0
   \<and> rows frame_a = [row_cat, row_dog]
   \<and> (\<exists>parts. rows frame_a = concat parts \<and>
        list_all2 (\<lambda>doc part.
           length part = length (findall ''object'' doc) \<and>
           (\<forall>r\<in>set part. \<exists>f. text_of (find_elem ''filename'' doc) = Inr (Some f)
              \<and> filename r = os_path_join ''imgs'' f
              \<and> size_entry doc 0 = Inr (width r) \<and> size_entry doc 1 = Inr (height r)))
          [doc_a, doc_d] parts)"
proof -
  have h: "convert_annotations_to_df [doc_a, doc_d] ''imgs'' ''train'' None = Inr (frame_a, encoder_a)"
    by code_simp
  have k: "length (findall ''object'' doc_a) = 2 \<and> length (findall ''object'' doc_d) = 0"
    by code_simp
  have r: "rows frame_a = [row_cat, row_dog]"
    by (simp add: frame_a_def)
  from h k r flatten_rows_per_document [OF h] show ?thesis
    by (intro conjI) simp_all
qed

text \<open>
  Claim C10. Whenever flattening returns a table, every row made of a document has as its
  width the integer read from the text of the first child of that document's \<open>size\<close>
  element and as its height the integer read from the text of the second child, whatever
  the tags of these two children are.
\<close>

theorem size_read_by_position:
  assumes "convert_annotations_to_df docs image_dir image_set encoder = Inr (frame, encoder')"
  shows "\<exists>parts. rows frame = concat parts \<and>
    list_all2 (\<lambda>doc part. \<forall>r\<in>set part. \<exists>s c0 c1 more.
       find_elem ''size'' doc = Some s \<and> elem_children s = c0 # c1 # more
       \<and> int_of_text (elem_text c0) = Inr (width r)
       \<and> int_of_text (elem_text c1) = Inr (height r)) docs parts"
proof -
  from convert_rows [OF assms] obtain parts where parts: "rows frame = concat parts"
    and all: "list_all2 (doc_rows image_dir) docs parts"
    using xml_df_parts by blast
  from all have "list_all2 (\<lambda>doc part. \<forall>r\<in>set part. \<exists>s c0 c1 more.
       find_elem ''size'' doc = Some s \<and> elem_children s = c0 # c1 # more
       \<and> int_of_text (elem_text c0) = Inr (width r)
       \<and> int_of_text (elem_text c1) = Inr (height r)) docs parts"
  proof (rule list_all2_mono)
    fix doc part
    assume dr: "doc_rows image_dir doc part"
    show "\<forall>r\<in>set part. \<exists>s c0 c1 more.
       find_elem ''size'' doc = Some s \<and> elem_children s = c0 # c1 # more
       \<and> int_of_text (elem_text c0) = Inr (width r)
       \<and> int_of_text (elem_text c1) = Inr (height r)"
    proof
      fix r assume "r \<in> set part"
      from doc_rows_fields [OF dr this] have "size_entry doc 0 = Inr (width r)" "size_entry doc 1 = Inr (height r)"
        by auto
      then show "\<exists>s c0 c1 more.
       find_elem ''size'' doc = Some s \<and> elem_children s = c0 # c1 # more
       \<and> int_of_text (elem_text c0) = Inr (width r)
       \<and> int_of_text (elem_text c1) = Inr (height r)"
        by (rule size_entry_position)
    qed
  qed
  with parts show ?thesis by blast
qed

theorem size_read_by_position_witness:
  "convert_annotations_to_df [doc_b] ''imgs'' ''val'' encoder_a = Inr (frame_b, encoder_a)
   \<and> map elem_tag (elem_children (the (find_elem ''size'' doc_b))) = [''depth'', ''height'', ''width'']
   \<and> map width (rows frame_b) = [3] \<and> map height (rows frame_b) = [60]
   \<and> (\<exists>parts. rows frame_b = concat parts \<and>
        list_all2 (\<lambda>doc part. \<forall>r\<in>set part. \<exists>s c0 c1 more.
           find_elem ''size'' doc = Some s \<and> elem_children s = c0 # c1 # more
           \<and> int_of_text (elem_text c0) = Inr (width r)
           \<and> int_of_text (elem_text c1) = Inr (height r)) [doc_b] parts)"
proof -
  have h: "convert_annotations_to_df [doc_b] ''imgs'' ''val'' encoder_a = Inr (frame_b, encoder_a)"
    by code_simp
  have t: "map elem_tag (elem_children (the (find_elem ''size'' doc_b))) = [''depth'', ''height'', ''width'']"
    by code_simp
  have w: "map width (rows frame_b) = [3] \<and> map height (rows frame_b) = [60]"
    by (simp add: frame_b_def row_b_def)
  from h t w size_read_by_position [OF h] show ?thesis
    by (intro conjI) simp_all
qed

text \<open>
  Claim C9. For a split value other than \<open>train\<close>, \<open>val\<close> and \<open>test\<close>, flattening
  fails only where building the rows fails, and otherwise returns the rows without a
  \<open>labels\<close> column and leaves the encoder as it was; the rows are those that
  flattening the same documents returns for any split.
\<close>

theorem other_split_no_labels:
  assumes "image_set \<noteq> ''train''" and "image_set \<noteq> ''val''" and "image_set \<noteq> ''test''"
  shows "convert_annotations_to_df docs image_dir image_set encoder =
           (case xml_df docs image_dir of
              Inl e \<Rightarrow> Inl e
            | Inr rs \<Rightarrow> Inr (\<lparr>rows = rs, labels = None\<rparr>, encoder))
     \<and> (\<forall>other_set encoder2 frame2 encoder2'.
           convert_annotations_to_df docs image_dir other_set encoder2 = Inr (frame2, encoder2')
           \<longrightarrow> xml_df docs image_dir = Inr (rows frame2))"
  using assms convert_rows
  by (auto simp: convert_annotations_to_df_def split: sum.splits)

theorem other_split_no_labels_witness:
  "''trainval'' \<noteq> ''train'' \<and> ''trainval'' \<noteq> ''val'' \<and> ''trainval'' \<noteq> ''test''
   \<and> convert_annotations_to_df [doc_a, doc_d] ''imgs'' ''train'' None = Inr (frame_a, encoder_a)
   \<and> convert_annotations_to_df [doc_a, doc_d] ''imgs'' ''trainval'' None
       = Inr (\<lparr>rows = rows frame_a, labels = None\<rparr>, None)"
proof -
  have n: "''trainval'' \<noteq> ''train''" "''trainval'' \<noteq> ''val''" "''trainval'' \<noteq> ''test''"
    by simp_all
  have h: "convert_annotations_to_df [doc_a, doc_d] ''imgs'' ''train'' None = Inr (frame_a, encoder_a)"
    by code_simp
  from other_split_no_labels [OF n, of "[doc_a, doc_d]" "''imgs''" None]
  have c: "convert_annotations_to_df [doc_a, doc_d] ''imgs'' ''trainval'' None =
           (case xml_df [doc_a, doc_d] ''imgs'' of
              Inl e \<Rightarrow> Inl e
            | Inr rs \<Rightarrow> Inr (\<lparr>rows = rs, labels = None\<rparr>, None))"
    and r: "\<forall>other_set encoder2 frame2 encoder2'.
           convert_annotations_to_df [doc_a, doc_d] ''imgs'' other_set encoder2 = Inr (frame2, encoder2')
           \<longrightarrow> xml_df [doc_a, doc_d] ''imgs'' = Inr (rows frame2)"
    by simp_all
  from r h have "xml_df [doc_a, doc_d] ''imgs'' = Inr (rows frame_a)"
    by blast
  with c have "convert_annotations_to_df [doc_a, doc_d] ''imgs'' ''trainval'' None
       = Inr (\<lparr>rows = rows frame_a, labels = None\<rparr>, None)"
    by simp
  with n h show ?thesis by simp
qed

section \<open>The flattener: label ids\<close>

lemma index_of_None: "index_of xs y = None \<longleftrightarrow> y \<notin> set xs"
  by (induction xs) auto

lemma encode_labels:
  assumes "encode classes ys = Inr ls"
  shows "list_all2 (\<lambda>y l. \<exists>i. index_of classes y = Some i \<and> l = int i) ys ls"
proof -
  from assms have "list_all2 (\<lambda>y l. (case index_of classes y of None \<Rightarrow> Inl ValueError | Some i \<Rightarrow> Inr (int i)) = Inr l) ys ls"
    by (simp add: encode_def map_err_eq_Inr)
  then show ?thesis
    by (rule list_all2_mono) (auto split: option.splits)
qed

lemma encode_unseen:
  assumes "y \<in> set ys" and "y \<notin> set classes"
  shows "encode classes ys = Inl ValueError"
proof (cases "encode classes ys")
  case (Inl e)
  then obtain x where "(case index_of classes x of None \<Rightarrow> Inl ValueError | Some i \<Rightarrow> Inr (int i)) = Inl e"
    unfolding encode_def using map_err_Inl by fastforce
  then have "e = ValueError" by (auto split: option.splits)
  with Inl show ?thesis by simp
next
  case (Inr ls)
  from encode_labels [OF Inr] assms(1) obtain i where "index_of classes y = Some i"
    by (auto simp: in_set_conv_nth list_all2_conv_all_nth)
  with assms(2) show ?thesis by (simp add: index_of_None [symmetric])
qed

lemma set_classes_of: "set (classes_of ys) = set ys"
proof -
  have "Some ` set (List.map_filter id ys) = set ys - {None}"
    by (induction ys) (auto split: option.splits)
  then show ?thesis
    by (auto simp: classes_of_def)
qed

lemma convert_train:
  assumes "convert_annotations_to_df docs image_dir ''train'' encoder = Inr (frame, encoder')"
  shows "\<exists>ls. encoder' = Some (classes_of (map class_name (rows frame)))
     \<and> encode (classes_of (map class_name (rows frame))) (map class_name (rows frame)) = Inr ls
     \<and> labels frame = Some (add_one ls)"
  using assms
  by (auto simp: convert_annotations_to_df_def fit_transform_def Let_def and_then_eq_Inr)

lemma convert_transform:
  assumes "image_set = ''val'' \<or> image_set = ''test''"
    and "convert_annotations_to_df docs image_dir image_set encoder = Inr (frame, encoder')"
  shows "\<exists>classes ls. encoder = Some classes \<and> encoder' = encoder
     \<and> encode classes (map class_name (rows frame)) = Inr ls \<and> labels frame = Some (add_one ls)"
  using assms
  by (auto simp: convert_annotations_to_df_def transform_def and_then_eq_Inr split: option.splits)

lemma labelled_encode:
  assumes "encode classes (map class_name (rows frame)) = Inr ls" and "labels frame = Some (add_one ls)"
    and "(r, l) \<in> set (labelled frame)"
  shows "\<exists>i. index_of classes (class_name r) = Some i \<and> l = int i + 1"
proof -
  from encode_labels [OF assms(1)]
  have all: "list_all2 (\<lambda>y l. \<exists>i. index_of classes y = Some i \<and> l = int i) (map class_name (rows frame)) ls" .
  then have len: "length ls = length (rows frame)"
    by (auto dest: list_all2_lengthD)
  from assms(2,3) have "(r, l) \<in> set (zip (rows frame) (add_one ls))"
    by (simp add: labelled_def)
  then obtain k where k: "k < length (rows frame)" "rows frame ! k = r" "add_one ls ! k = l"
    using len by (auto simp: in_set_zip add_one_def)
  with all len have "\<exists>i. index_of classes (class_name r) = Some i \<and> ls ! k = int i"
    by (auto simp: list_all2_conv_all_nth)
  with k len show ?thesis by (auto simp: add_one_def)
qed

lemma convert_labels_ge_1:
  assumes "convert_annotations_to_df docs image_dir image_set encoder = Inr (frame, encoder')"
    and "labels frame = Some ls" and "l \<in> set ls"
  shows "1 \<le> l"
proof -
  have *: "\<And>classes ks. encode classes (map class_name (rows frame)) = Inr ks \<Longrightarrow> ls = add_one ks \<Longrightarrow> 1 \<le> l"
  proof -
    fix classes ks
    assume e: "encode classes (map class_name (rows frame)) = Inr ks" and ls: "ls = add_one ks"
    from assms(3) ls obtain k where "k \<in> set ks" "l = k + 1"
      by (auto simp: add_one_def)
    moreover from encode_labels [OF e] \<open>k \<in> set ks\<close> have "0 \<le> k"
      by (auto simp: in_set_conv_nth list_all2_conv_all_nth)
    ultimately show "1 \<le> l" by simp
  qed
  consider "image_set = ''train''" | "image_set = ''val'' \<or> image_set = ''test''"
    | "image_set \<noteq> ''train''" "image_set \<noteq> ''val''" "image_set \<noteq> ''test''"
    by blast
  then show ?thesis
  proof cases
    case 1
    with assms(1) convert_train obtain ks where
      "encode (classes_of (map class_name (rows frame))) (map class_name (rows frame)) = Inr ks"
      "labels frame = Some (add_one ks)" by blast
    with assms(2) * show ?thesis by simp
  next
    case 2
    with assms(1) convert_transform obtain classes ks where
      "encode classes (map class_name (rows frame)) = Inr ks"
      "labels frame = Some (add_one ks)" by blast
    with assms(2) * show ?thesis by simp
  next
    case 3
    with assms(1,2) show ?thesis
      by (auto simp: convert_annotations_to_df_def and_then_eq_Inr)
  qed
qed

text \<open>
  Claim C5. Every entry of a \<open>labels\<close> column that flattening returns is at least 1.
  And when flattening with split \<open>train\<close> has returned a table and an encoder, and
  flattening with split \<open>val\<close> or \<open>test\<close> under that encoder returns a table, then
  any row of the first and any row of the second that have the same class name have the
  same label id.
\<close>

theorem label_ids_positive_and_consistent:
  "(\<forall>ls. convert_annotations_to_df docs image_dir image_set encoder = Inr (frame, encoder_out)
       \<and> labels frame = Some ls \<longrightarrow> (\<forall>l\<in>set ls. 1 \<le> l))
   \<and> (convert_annotations_to_df docs_t dir_t ''train'' encoder_i = Inr (frame_t, encoder_t)
       \<and> (image_set_v = ''val'' \<or> image_set_v = ''test'')
       \<and> convert_annotations_to_df docs_v dir_v image_set_v encoder_t = Inr (frame_v, encoder_v)
      \<longrightarrow> (\<forall>(r1, l1)\<in>set (labelled frame_t). \<forall>(r2, l2)\<in>set (labelled frame_v).
             class_name r1 = class_name r2 \<longrightarrow> l1 = l2))"
proof (intro conjI allI impI)
  fix ls
  assume "convert_annotations_to_df docs image_dir image_set encoder = Inr (frame, encoder_out) \<and> labels frame = Some ls"
  then show "\<forall>l\<in>set ls. 1 \<le> l"
    using convert_labels_ge_1 by blast
next
  assume a: "convert_annotations_to_df docs_t dir_t ''train'' encoder_i = Inr (frame_t, encoder_t)
       \<and> (image_set_v = ''val'' \<or> image_set_v = ''test'')
       \<and> convert_annotations_to_df docs_v dir_v image_set_v encoder_t = Inr (frame_v, encoder_v)"
  from a convert_train obtain ks1 where 1: "encoder_t = Some (classes_of (map class_name (rows frame_t)))"
    "encode (classes_of (map class_name (rows frame_t))) (map class_name (rows frame_t)) = Inr ks1"
    "labels frame_t = Some (add_one ks1)" by blast
  from a convert_transform [of image_set_v docs_v dir_v encoder_t frame_v encoder_v] 1(1) obtain ks2 where
    2: "encode (classes_of (map class_name (rows frame_t))) (map class_name (rows frame_v)) = Inr ks2"
    "labels frame_v = Some (add_one ks2)" by auto
  show "\<forall>(r1, l1)\<in>set (labelled frame_t). \<forall>(r2, l2)\<in>set (labelled frame_v).
             class_name r1 = class_name r2 \<longrightarrow> l1 = l2"
  proof (clarify)
    fix r1 l1 r2 l2
    assume m1: "(r1, l1) \<in> set (labelled frame_t)" and m2: "(r2, l2) \<in> set (labelled frame_v)"
      and eq: "class_name r1 = class_name r2"
    from labelled_encode [OF 1(2,3) m1] labelled_encode [OF 2 m2] eq
    show "l1 = l2" by auto
  qed
qed

theorem label_ids_positive_and_consistent_witness:
  "convert_annotations_to_df [doc_a, doc_d] ''imgs'' ''train'' None = Inr (frame_a, encoder_a)
   \<and> labels frame_a = Some [1, 2]
   \<and> convert_annotations_to_df [doc_b] ''imgs'' ''val'' encoder_a = Inr (frame_b, encoder_a)
   \<and> labelled frame_a = [(row_cat, 1), (row_dog, 2)] \<and> labelled frame_b = [(row_b, 2)]
   \<and> class_name row_dog = class_name row_b
   \<and> list_all (\<lambda>l. 1 \<le> l) [1, 2 :: int]
   \<and> snd (labelled frame_a ! 1) = snd (labelled frame_b ! 0)"
proof -
  have t: "convert_annotations_to_df [doc_a, doc_d] ''imgs'' ''train'' None = Inr (frame_a, encoder_a)"
    by code_simp
  have v: "convert_annotations_to_df [doc_b] ''imgs'' ''val'' encoder_a = Inr (frame_b, encoder_a)"
    by code_simp
  have ls: "labels frame_a = Some [1, 2]"
    by (simp add: frame_a_def)
  have la: "labelled frame_a = [(row_cat, 1), (row_dog, 2)]" and lb: "labelled frame_b = [(row_b, 2)]"
    by (simp_all add: labelled_def frame_a_def frame_b_def)
  have cn: "class_name row_dog = class_name row_b"
    by (simp add: row_dog_def row_b_def)
  note inst = label_ids_positive_and_consistent
    [where docs = "[doc_a, doc_d]" and image_dir = "''imgs''" and image_set = "''train''"
       and encoder = None and frame = frame_a and encoder_out = encoder_a
       and docs_t = "[doc_a, doc_d]" and dir_t = "''imgs''" and encoder_i = None
       and frame_t = frame_a and encoder_t = encoder_a and image_set_v = "''val''"
       and docs_v = "[doc_b]" and dir_v = "''imgs''" and frame_v = frame_b and encoder_v = encoder_a]
  have s: "''val'' = ''val'' \<or> ''val'' = ''test''"
    by simp
  from inst [THEN conjunct1, THEN spec, THEN mp, OF conjI [OF t ls]]
  have pos: "\<forall>l\<in>set [1, 2 :: int]. 1 \<le> l" .
  from inst [THEN conjunct2, THEN mp, OF conjI [OF t conjI [OF s v]]]
  have same: "\<forall>(r1, l1)\<in>set (labelled frame_a). \<forall>(r2, l2)\<in>set (labelled frame_b).
         class_name r1 = class_name r2 \<longrightarrow> l1 = l2" .
  from pos have pos': "list_all (\<lambda>l. 1 \<le> l) [1, 2 :: int]"
    by (simp only: list_all_iff)
  have ma: "labelled frame_a ! 1 \<in> set (labelled frame_a)"
    and mb: "labelled frame_b ! 0 \<in> set (labelled frame_b)"
    by (simp_all add: la lb)
  have eq: "class_name (fst (labelled frame_a ! 1)) = class_name (fst (labelled frame_b ! 0))"
    by (simp add: la lb cn)
  from same have "\<forall>p\<in>set (labelled frame_a). \<forall>q\<in>set (labelled frame_b).
      class_name (fst p) = class_name (fst q) \<longrightarrow> snd p = snd q"
    by (simp only: case_prod_beta')
  from this [THEN bspec, OF ma, THEN bspec, OF mb, THEN mp, OF eq]
  have same': "snd (labelled frame_a ! 1) = snd (labelled frame_b ! 0)" .
  from t ls v la lb cn pos' same' show ?thesis
    by (intro conjI)
qed

text \<open>
  Claim C8. When flattening with split \<open>train\<close> has returned a table and an encoder,
  and the rows built for a later call with split \<open>val\<close> or \<open>test\<close> contain a class
  name that no row of the train table has, that later call under this encoder raises
  \<open>ValueError\<close>; it returns no table.
\<close>

theorem unseen_class_raises:
  assumes "convert_annotations_to_df docs1 dir1 ''train'' encoder0 = Inr (frame1, encoder1)"
    and "image_set = ''val'' \<or> image_set = ''test''"
    and "xml_df docs2 dir2 = Inr rs" and "r \<in> set rs"
    and "class_name r \<notin> class_name ` set (rows frame1)"
  shows "convert_annotations_to_df docs2 dir2 image_set encoder1 = Inl ValueError"
proof -
  from assms(1) convert_train have enc: "encoder1 = Some (classes_of (map class_name (rows frame1)))"
    by blast
  from assms(4,5) have "encode (classes_of (map class_name (rows frame1))) (map class_name rs) = Inl ValueError"
    by (intro encode_unseen [of "class_name r"]) (simp_all add: set_classes_of)
  with assms(2,3) enc show ?thesis
    by (auto simp: convert_annotations_to_df_def transform_def)
qed

theorem unseen_class_raises_witness:
  "convert_annotations_to_df [doc_a, doc_d] ''imgs'' ''train'' None = Inr (frame_a, encoder_a)
   \<and> xml_df [doc_c] ''imgs'' = Inr [row_c]
   \<and> class_name row_c \<notin> class_name ` set (rows frame_a)
   \<and> convert_annotations_to_df [doc_c] ''imgs'' ''test'' encoder_a = Inl ValueError"
proof -
  have t: "convert_annotations_to_df [doc_a, doc_d] ''imgs'' ''train'' None = Inr (frame_a, encoder_a)"
    by code_simp
  have s: "''test'' = ''val'' \<or> ''test'' = ''test''"
    by simp
  have x: "xml_df [doc_c] ''imgs'' = Inr [row_c]"
    by code_simp
  have m: "row_c \<in> set [row_c]"
    by simp
  have n: "class_name row_c \<notin> class_name ` set (rows frame_a)"
    by (simp add: frame_a_def row_c_def row_cat_def row_dog_def)
  from t x n unseen_class_raises [OF t s x m n] show ?thesis
    by (intro conjI)
qed

section \<open>Clamping\<close>

lemma clamp_value_range: "fl_le (Fin 0) (clamp_value v) \<and> fl_le (clamp_value v) (Fin 1)"
  by (cases v) (simp_all add: clamp_value_def py_min_def py_max_def)

lemma clamp_value_idem: "clamp_value (clamp_value v) = clamp_value v"
  by (cases v) (simp_all add: clamp_value_def py_min_def py_max_def)

lemma length_4_conv: "length b = 4 \<longleftrightarrow> (\<exists>x0 x1 x2 x3. b = [x0, x1, x2, x3])"
  by (simp add: eval_nat_numeral length_Suc_conv) blast
lemma length_5_conv: "length b = 5 \<longleftrightarrow> (\<exists>x0 x1 x2 x3 x4. b = [x0, x1, x2, x3, x4])"
  by (simp add: eval_nat_numeral length_Suc_conv) blast

lemma less_4_cases: "j < (4::nat) \<longleftrightarrow> j = 0 \<or> j = 1 \<or> j = 2 \<or> j = 3"
  by auto

lemma clamp_bbox_4:
  "length b = 4 \<or> length b = 5 \<Longrightarrow> \<exists>c. clamp_bbox b = Inr c \<and> clamped_box b c \<and> clamp_bbox c = Inr c"
  unfolding length_4_conv length_5_conv clamped_box_def less_4_cases
  using clamp_value_range clamp_value_idem
  by (auto simp: clamp_value_def[symmetric])

lemma clamp_ok:
  assumes "\<forall>b\<in>set bboxes. length b = 4 \<or> length b = 5"
  shows "\<exists>out. clamp_bbox_coordinates bboxes = Inr out \<and> list_all2 clamped_box bboxes out \<and> clamp_bbox_coordinates out = Inr out"
  using assms
proof (induction bboxes)
  case Nil
  then show ?case by (simp add: clamp_bbox_coordinates_def)
next
  case (Cons b bs)
  then obtain out where out: "clamp_bbox_coordinates bs = Inr out" "list_all2 clamped_box bs out" "clamp_bbox_coordinates out = Inr out"
    by auto
  from Cons.prems obtain c where c: "clamp_bbox b = Inr c" "clamped_box b c" "clamp_bbox c = Inr c"
    using clamp_bbox_4 [of b] by auto
  from out c have "clamp_bbox_coordinates (b # bs) = Inr (c # out) \<and> list_all2 clamped_box (b # bs) (c # out) \<and> clamp_bbox_coordinates (c # out) = Inr (c # out)"
    by (simp add: clamp_bbox_coordinates_def)
  then show ?case by blast
qed

lemma clamp_length:
  assumes "\<forall>b\<in>set bs. length b = 4"
  shows "\<exists>out. clamp_bbox_coordinates bs = Inr out \<and> length out = length bs"
proof -
  from assms have "\<forall>b\<in>set bs. length b = 4 \<or> length b = 5" by simp
  from clamp_ok [OF this] show ?thesis
    by (auto dest: list_all2_lengthD)
qed

text \<open>
  Claim C3. On a sequence of boxes that each have four or five entries,
  \<open>clamp_bbox_coordinates\<close> returns a result; the result has as many boxes as the
  input, each of the length of the input box; each of its first four entries is
  \<open>max(0, min(v, 1))\<close> of the input entry \<open>v\<close> and lies between 0 and 1; a fifth
  entry is the input's fifth entry; and clamping the result again returns the result.
\<close>

theorem clamp_total_idempotent:
  assumes "\<forall>bbox\<in>set bboxes. length bbox = 4 \<or> length bbox = 5"
  shows "\<exists>out. clamp_bbox_coordinates bboxes = Inr out
     \<and> length out = length bboxes
     \<and> (\<forall>i<length bboxes.
           length (out ! i) = length (bboxes ! i)
           \<and> (\<forall>j<4. out ! i ! j = py_max (Fin 0) (py_min (bboxes ! i ! j) (Fin 1))
                 \<and> fl_le (Fin 0) (out ! i ! j) \<and> fl_le (out ! i ! j) (Fin 1))
           \<and> (length (bboxes ! i) = 5 \<longrightarrow> out ! i ! 4 = bboxes ! i ! 4))
     \<and> clamp_bbox_coordinates out = Inr out"
proof -
  from clamp_ok [OF assms] obtain out where out: "clamp_bbox_coordinates bboxes = Inr out"
    and rel: "list_all2 clamped_box bboxes out" and idem: "clamp_bbox_coordinates out = Inr out"
    by blast
  from rel have len: "length out = length bboxes"
    by (simp add: list_all2_lengthD)
  from rel have each: "\<forall>i<length bboxes. clamped_box (bboxes ! i) (out ! i)"
    by (simp add: list_all2_conv_all_nth)
  have "\<forall>i<length bboxes.
           length (out ! i) = length (bboxes ! i)
           \<and> (\<forall>j<4. out ! i ! j = py_max (Fin 0) (py_min (bboxes ! i ! j) (Fin 1))
                 \<and> fl_le (Fin 0) (out ! i ! j) \<and> fl_le (out ! i ! j) (Fin 1))
           \<and> (length (bboxes ! i) = 5 \<longrightarrow> out ! i ! 4 = bboxes ! i ! 4)"
    using each unfolding clamped_box_def .
  with out len idem show ?thesis by blast
qed

theorem clamp_total_idempotent_witness:
  "map length some_boxes = [4, 5]
   \<and> clamp_bbox_coordinates some_boxes = Inr some_boxes_clamped
   \<and> length some_boxes_clamped = length some_boxes
   \<and> clamp_bbox_coordinates some_boxes_clamped = Inr some_boxes_clamped"
proof -
  have h: "\<forall>bbox\<in>set some_boxes. length bbox = 4 \<or> length bbox = 5"
    by (simp add: some_boxes_def)
  have c: "clamp_bbox_coordinates some_boxes = Inr some_boxes_clamped"
    by code_simp
  from clamp_total_idempotent [OF h] obtain out where
    "clamp_bbox_coordinates some_boxes = Inr out" "length out = length some_boxes"
    "clamp_bbox_coordinates out = Inr out"
    by blast
  with c have "length some_boxes_clamped = length some_boxes"
    "clamp_bbox_coordinates some_boxes_clamped = Inr some_boxes_clamped"
    by simp_all
  moreover have "map length some_boxes = [4, 5]"
    by (simp add: some_boxes_def)
  ultimately show ?thesis using c by (intro conjI)
qed

section \<open>The dataset\<close>

lemma set_unique_from: "set (unique_from seen xs) = set xs - set seen"
  by (induction xs arbitrary: seen) auto

lemma distinct_unique_from: "distinct (unique_from seen xs)"
  by (induction xs arbitrary: seen) (auto simp: set_unique_from)

text \<open>
  Claim C6. The length of a dataset built on a table is the number of distinct values
  of the table's \<open>filename\<close> column, however many rows carry each of them.
\<close>

theorem len_counts_distinct_filenames:
  "PascalDataset_len (PascalDataset_init frame transforms) = card (filename ` set (rows frame))"
proof -
  have "length (unique (map filename (rows frame))) = card (set (unique (map filename (rows frame))))"
    by (simp add: unique_def distinct_card distinct_unique_from)
  then show ?thesis
    by (simp add: PascalDataset_len_def PascalDataset_init_def unique_def set_unique_from)
qed

lemma int64_id: "- (2 ^ 63) \<le> v \<Longrightarrow> v < 2 ^ 63 \<Longrightarrow> int64 v = v"
  by (simp add: int64_def)

lemma float32_of_int_exact: "\<bar>v\<bar> < 2 ^ 24 \<Longrightarrow> float32_of_int v = v"
proof -
  assume "\<bar>v\<bar> < 2 ^ 24"
  then have "bitlen \<bar>v\<bar> \<le> 24" by (simp add: bitlen_le_iff_power)
  then show ?thesis by (simp add: float32_of_int_def Let_def)
qed

lemma is_bbox_valid_4: "length bbox = 4 \<Longrightarrow> \<exists>k. is_bbox_valid bbox = Inr k"
  by (auto simp: length_4_conv)

lemma filter_valid:
  assumes "\<forall>bbox\<in>set bs. length bbox = 4"
  shows "filter_err is_bbox_valid bs = Inr (filter (\<lambda>bbox. is_bbox_valid bbox = Inr True) bs)"
  using assms by (intro filter_err_total) (simp add: is_bbox_valid_4)

lemma before_transform_Inr:
  assumes "before_transform imread other_area self index = Inr b"
  shows "\<exists>image_id. py_index (image_ids self) index = Inr image_id
     \<and> imread image_id = Inr (arg_image b)
     \<and> arg_bboxes b = filter (\<lambda>bbox. is_bbox_valid bbox = Inr True) (map box_of (records_of (df self) image_id))
     \<and> labels_of (df self) image_id = Inr (arg_class_labels b)
     \<and> area_column other_area (df self) (records_of (df self) image_id) = Inr (the_area b)
     \<and> the_iscrowd b = replicate (length (records_of (df self) image_id)) 0"
proof -
  have valid: "\<And>rs. filter_err is_bbox_valid (map box_of rs) = Inr (filter (\<lambda>bbox. is_bbox_valid bbox = Inr True) (map box_of rs))"
    by (rule filter_valid) (auto simp: box_of_def)
  from assms show ?thesis
    by (auto simp: before_transform_def Let_def and_then_eq_Inr valid)
qed

lemma getitem_area:
  assumes "PascalDataset_getitem imread other_area as_float32 self index = Inr (Sample img tgt idx)"
  shows "\<exists>b. before_transform imread other_area self index = Inr b \<and> target_area tgt = the_area b"
  using assms
  by (auto simp: PascalDataset_getitem_def and_then_eq_Inr split: prod.splits if_splits)

lemma before_transform_tfms [simp]:
  "before_transform imread other_area (self\<lparr>tfms := t\<rparr>) index = before_transform imread other_area self index"
  by (simp add: before_transform_def)

lemma area_of_exact:
  assumes "\<bar>(ymax r - ymin r) * (xmax r - xmin r)\<bar> < 2 ^ 24"
  shows "area_of r = Fin (of_int ((ymax r - ymin r) * (xmax r - xmin r)))"
proof -
  define h where "h = ymax r - ymin r"
  define w where "w = xmax r - xmin r"
  from assms have hw: "\<bar>h * w\<bar> < 2 ^ 24" by (simp add: h_def w_def)
  have "int64 (int64 h * int64 w) = h * w"
  proof (cases "h = 0 \<or> w = 0")
    case True
    then show ?thesis by (auto simp: int64_def)
  next
    case False
    then have "1 \<le> \<bar>h\<bar>" "1 \<le> \<bar>w\<bar>" by auto
    then have "\<bar>h\<bar> * 1 \<le> \<bar>h\<bar> * \<bar>w\<bar>" "1 * \<bar>w\<bar> \<le> \<bar>h\<bar> * \<bar>w\<bar>"
      by (simp_all only: mult_left_mono mult_right_mono abs_ge_zero)
    with hw have "\<bar>h\<bar> < 2 ^ 24" "\<bar>w\<bar> < 2 ^ 24" by (simp_all add: abs_mult)
    then have "int64 h = h" "int64 w = w" by (simp_all add: int64_id)
    moreover from hw have "int64 (h * w) = h * w" by (simp add: int64_id)
    ultimately show ?thesis by simp
  qed
  moreover from hw have "float32_of_int (h * w) = h * w" by (rule float32_of_int_exact)
  ultimately show ?thesis by (simp add: area_of_def h_def w_def)
qed

text \<open>
  Claim C7. Whenever \<open>__getitem__\<close> returns a sample on a table whose coordinate
  columns are \<open>int64\<close> columns, the \<open>area\<close> of its target is the list, over all rows
  of the image in the table, of the area computed from the row's raw coordinates,
  \<open>(ymax - ymin) * (xmax - xmin)\<close> taken in \<open>int64\<close> and stored as \<open>float32\<close>; an
  entry is exactly that product whenever the product's magnitude is below \<open>2^24\<close>. The
  list is the same for every transform under which a sample is returned.
\<close>

theorem area_from_raw_boxes:
  assumes "PascalDataset_getitem imread other_area as_float32 self index = Inr (Sample img tgt idx)"
    and "int64_columns (df self)"
  shows "\<exists>image_id. py_index (image_ids self) index = Inr image_id
     \<and> target_area tgt = map area_of (records_of (df self) image_id)
     \<and> (\<forall>i<length (records_of (df self) image_id).
           \<bar>(ymax (records_of (df self) image_id ! i) - ymin (records_of (df self) image_id ! i))
              * (xmax (records_of (df self) image_id ! i) - xmin (records_of (df self) image_id ! i))\<bar>
             < 2 ^ 24 \<longrightarrow>
           target_area tgt ! i =
             Fin (of_int ((ymax (records_of (df self) image_id ! i) - ymin (records_of (df self) image_id ! i))
                * (xmax (records_of (df self) image_id ! i) - xmin (records_of (df self) image_id ! i)))))
     \<and> (\<forall>transforms' img' tgt' idx'.
           PascalDataset_getitem imread other_area as_float32 (self\<lparr>tfms := transforms'\<rparr>) index = Inr (Sample img' tgt' idx')
           \<longrightarrow> target_area tgt' = target_area tgt)"
proof -
  from getitem_area [OF assms(1)] obtain b where b: "before_transform imread other_area self index = Inr b"
    and area: "target_area tgt = the_area b" by blast
  from before_transform_Inr [OF b] obtain image_id where id: "py_index (image_ids self) index = Inr image_id"
    and col: "area_column other_area (df self) (records_of (df self) image_id) = Inr (the_area b)" by blast
  let ?rs = "records_of (df self) image_id"
  from col assms(2) have ar: "the_area b = map area_of ?rs"
    by (simp add: area_column_def)
  have exact: "\<forall>i<length ?rs.
           \<bar>(ymax (?rs ! i) - ymin (?rs ! i)) * (xmax (?rs ! i) - xmin (?rs ! i))\<bar> < 2 ^ 24 \<longrightarrow>
           target_area tgt ! i =
             Fin (of_int ((ymax (?rs ! i) - ymin (?rs ! i)) * (xmax (?rs ! i) - xmin (?rs ! i))))"
    using area ar area_of_exact by simp
  have same: "\<forall>transforms' img' tgt' idx'.
           PascalDataset_getitem imread other_area as_float32 (self\<lparr>tfms := transforms'\<rparr>) index = Inr (Sample img' tgt' idx')
           \<longrightarrow> target_area tgt' = target_area tgt"
  proof (intro allI impI)
    fix transforms' img' tgt' idx'
    assume "PascalDataset_getitem imread other_area as_float32 (self\<lparr>tfms := transforms'\<rparr>) index = Inr (Sample img' tgt' idx')"
    from getitem_area [OF this] b area show "target_area tgt' = target_area tgt" by auto
  qed
  from area ar have "target_area tgt = map area_of ?rs" by simp
  with id exact same show ?thesis by blast
qed

theorem area_from_raw_boxes_witness:
  "PascalDataset_getitem read_path no_other_area id (PascalDataset_init frame_a keep_all) 0
     = Inr (Sample ''imgs/a.jpg''
         \<lparr>target_image_id = 0, target_boxes = [[Fin 0, Fin 0, Fin 1, Fin 1]],
          target_labels = [1, 2], target_area = [Fin 1, Fin 1600], target_iscrowd = [0, 0]\<rparr> 0)
   \<and> int64_columns (df (PascalDataset_init frame_a keep_all))
   \<and> PascalDataset_getitem read_path no_other_area id ((PascalDataset_init frame_a keep_all)\<lparr>tfms := shrink\<rparr>) 0
     = Inr (Sample ''imgs/a.jpg''
         \<lparr>target_image_id = 0, target_boxes = [[Fin 0, Fin 0, Fin (1 / 2), Fin (1 / 2)]],
          target_labels = [1], target_area = [Fin 1, Fin 1600], target_iscrowd = [0, 0]\<rparr> 0)
   \<and> records_of frame_a ''imgs/a.jpg'' = [row_cat, row_dog]
   \<and> \<bar>(ymax row_dog - ymin row_dog) * (xmax row_dog - xmin row_dog)\<bar> < 2 ^ 24
   \<and> [Fin 1, Fin 1600] ! 1 = Fin (of_int ((50 - 10) * (50 - 10)))
   \<and> [Fin 1, Fin 1600] = map area_of (records_of frame_a ''imgs/a.jpg'')"
proof -
  let ?tgt = "\<lparr>target_image_id = 0, target_boxes = [[Fin 0, Fin 0, Fin 1, Fin 1]],
          target_labels = [1, 2], target_area = [Fin 1, Fin 1600], target_iscrowd = [0, 0]\<rparr>"
  let ?self = "PascalDataset_init frame_a keep_all :: string PascalDataset"
  have k: "PascalDataset_getitem read_path no_other_area id ?self 0
     = Inr (Sample ''imgs/a.jpg'' ?tgt 0)"
    by code_simp
  have c: "int64_columns (df ?self)"
    by code_simp
  have s: "PascalDataset_getitem read_path no_other_area id (?self\<lparr>tfms := shrink\<rparr>) 0
     = Inr (Sample ''imgs/a.jpg''
         \<lparr>target_image_id = 0, target_boxes = [[Fin 0, Fin 0, Fin (1 / 2), Fin (1 / 2)]],
          target_labels = [1], target_area = [Fin 1, Fin 1600], target_iscrowd = [0, 0]\<rparr> 0)"
    by code_simp
  have rs: "records_of frame_a ''imgs/a.jpg'' = [row_cat, row_dog]"
    by (simp add: records_of_def frame_a_def row_cat_def row_dog_def)
  have b: "\<bar>(ymax row_dog - ymin row_dog) * (xmax row_dog - xmin row_dog)\<bar> < 2 ^ 24"
    by (simp add: row_dog_def)
  have d: "df ?self = frame_a"
    by (simp add: PascalDataset_init_def)
  have ix: "py_index (image_ids ?self) 0 = Inr ''imgs/a.jpg''"
    by code_simp
  from area_from_raw_boxes [OF k c] obtain image_id where
    i: "py_index (image_ids ?self) 0 = Inr image_id"
    and a: "target_area ?tgt = map area_of (records_of (df ?self) image_id)"
    and e: "\<forall>i<length (records_of (df ?self) image_id).
           \<bar>(ymax (records_of (df ?self) image_id ! i) - ymin (records_of (df ?self) image_id ! i))
              * (xmax (records_of (df ?self) image_id ! i) - xmin (records_of (df ?self) image_id ! i))\<bar>
             < 2 ^ 24 \<longrightarrow>
           target_area ?tgt ! i =
             Fin (of_int ((ymax (records_of (df ?self) image_id ! i) - ymin (records_of (df ?self) image_id ! i))
                * (xmax (records_of (df ?self) image_id ! i) - xmin (records_of (df ?self) image_id ! i))))"
    by blast
  from i ix have im: "image_id = ''imgs/a.jpg''"
    by simp
  from a have a': "[Fin 1, Fin 1600] = map area_of (records_of frame_a ''imgs/a.jpg'')"
    unfolding im d by simp
  from e [THEN spec, of 1] have "\<bar>(ymax row_dog - ymin row_dog) * (xmax row_dog - xmin row_dog)\<bar> < 2 ^ 24 \<longrightarrow>
      [Fin 1, Fin 1600] ! 1 = Fin (of_int ((ymax row_dog - ymin row_dog) * (xmax row_dog - xmin row_dog)))"
    unfolding im d rs by simp
  with b have "[Fin 1, Fin 1600] ! 1 = Fin (of_int ((ymax row_dog - ymin row_dog) * (xmax row_dog - xmin row_dog)))"
    by blast
  then have x: "[Fin 1, Fin 1600] ! 1 = Fin (of_int ((50 - 10) * (50 - 10)))"
    by (simp add: row_dog_def)
  from k c s rs b x a' show ?thesis by (intro conjI)
qed

text \<open>
  Claim C1, as the code has it. Once \<open>__getitem__\<close> has reached the transform and the
  transform has returned boxes with four entries each, the validity filter is applied to
  the returned boxes. If fewer of them are valid than the transform returned,
  \<open>__getitem__\<close> returns the skip value; otherwise it returns a triple whose target has
  as many boxes as the transform returned, and as labels the labels the transform
  returned. The number of boxes given to the transform plays no part.
\<close>

theorem getitem_skip_iff_invalid_output:
  assumes "before_transform imread other_area self index = Inr b"
    and "tfms self (arg_image b) (arg_bboxes b) (arg_class_labels b) = Inr (img, transformed_boxes, class_labels)"
    and "\<forall>bbox\<in>set transformed_boxes. length bbox = 4"
  shows "filter_err is_bbox_valid transformed_boxes = Inr (filter (\<lambda>bbox. is_bbox_valid bbox = Inr True) transformed_boxes)
    \<and> (if length (filter (\<lambda>bbox. is_bbox_valid bbox = Inr True) transformed_boxes) < length transformed_boxes
       then PascalDataset_getitem imread other_area as_float32 self index = Inr Skip
       else \<exists>tgt. PascalDataset_getitem imread other_area as_float32 self index = Inr (Sample img tgt index)
              \<and> length (target_boxes tgt) = length transformed_boxes
              \<and> target_labels tgt = class_labels)"
proof -
  let ?valid = "filter (\<lambda>bbox. is_bbox_valid bbox = Inr True) transformed_boxes"
  have f: "filter_err is_bbox_valid transformed_boxes = Inr ?valid"
    using assms(3) by (rule filter_valid)
  show ?thesis
  proof (cases "length ?valid < length transformed_boxes")
    case True
    with assms(1,2) f show ?thesis
      by (simp add: PascalDataset_getitem_def)
  next
    case False
    then have len: "length ?valid = length transformed_boxes"
      using length_filter_le [of _ transformed_boxes] by (simp add: le_antisym)
    then have all: "?valid = transformed_boxes"
      by (metis filter_True length_filter_less less_irrefl)
    have "\<forall>b\<in>set (map (map as_float32) transformed_boxes). length b = 4"
      using assms(3) by simp
    from clamp_length [OF this] obtain out where
      out: "clamp_bbox_coordinates (map (map as_float32) transformed_boxes) = Inr out"
      "length out = length transformed_boxes" by auto
    with assms(1,2) f all False show ?thesis
      by (simp add: PascalDataset_getitem_def)
  qed
qed

theorem getitem_skip_iff_invalid_output_witness:
  "before_transform read_path no_other_area (PascalDataset_init frame_u keep_all) 0 = Inr before_u
   \<and> keep_all (arg_image before_u) (arg_bboxes before_u) (arg_class_labels before_u)
       = Inr (''imgs/u.jpg'', [[Fin 0, Fin 0, Fin 1, Fin 1]], [1])
   \<and> map length [[Fin 0, Fin 0, Fin 1, Fin 1 :: pyfloat]] = [4]
   \<and> (\<exists>tgt. PascalDataset_getitem read_path no_other_area id (PascalDataset_init frame_u keep_all) 0
              = Inr (Sample ''imgs/u.jpg'' tgt 0)
          \<and> length (target_boxes tgt) = 1 \<and> target_labels tgt = [1])
   \<and> before_transform read_path no_other_area (PascalDataset_init frame_u push_out) 0 = Inr before_u
   \<and> push_out (arg_image before_u) (arg_bboxes before_u) (arg_class_labels before_u)
       = Inr (''imgs/u.jpg'', [[Fin 0, Fin 0, Fin (3 / 2), Fin 1]], [1])
   \<and> map length [[Fin 0, Fin 0, Fin (3 / 2), Fin 1 :: pyfloat]] = [4]
   \<and> PascalDataset_getitem read_path no_other_area id (PascalDataset_init frame_u push_out) 0 = Inr Skip"
proof -
  have b1: "before_transform read_path no_other_area (PascalDataset_init frame_u keep_all) 0 = Inr before_u"
    by code_simp
  have t1: "tfms (PascalDataset_init frame_u keep_all) (arg_image before_u) (arg_bboxes before_u)
              (arg_class_labels before_u) = Inr (''imgs/u.jpg'', [[Fin 0, Fin 0, Fin 1, Fin 1]], [1])"
    by (simp add: PascalDataset_init_def keep_all_def before_u_def)
  have l1: "\<forall>bbox\<in>set [[Fin 0, Fin 0, Fin 1, Fin 1]]. length bbox = 4"
    by simp
  have v1: "\<not> length (filter (\<lambda>bbox. is_bbox_valid bbox = Inr True) [[Fin 0, Fin 0, Fin 1, Fin 1]])
              < length [[Fin 0, Fin 0, Fin 1, Fin 1]]"
    by simp
  from getitem_skip_iff_invalid_output [OF b1 t1 l1, of id] v1
  have r1: "\<exists>tgt. PascalDataset_getitem read_path no_other_area id (PascalDataset_init frame_u keep_all) 0
              = Inr (Sample ''imgs/u.jpg'' tgt 0)
          \<and> length (target_boxes tgt) = 1 \<and> target_labels tgt = [1]"
    by simp
  have b2: "before_transform read_path no_other_area (PascalDataset_init frame_u push_out) 0 = Inr before_u"
    by code_simp
  have t2: "tfms (PascalDataset_init frame_u push_out) (arg_image before_u) (arg_bboxes before_u)
              (arg_class_labels before_u) = Inr (''imgs/u.jpg'', [[Fin 0, Fin 0, Fin (3 / 2), Fin 1]], [1])"
    by (simp add: PascalDataset_init_def push_out_def before_u_def)
  have l2: "\<forall>bbox\<in>set [[Fin 0, Fin 0, Fin (3 / 2), Fin 1]]. length bbox = 4"
    by simp
  have v2: "length (filter (\<lambda>bbox. is_bbox_valid bbox = Inr True) [[Fin 0, Fin 0, Fin (3 / 2), Fin 1]])
              < length [[Fin 0, Fin 0, Fin (3 / 2), Fin 1]]"
    by simp
  from getitem_skip_iff_invalid_output [OF b2 t2 l2, of id] v2
  have r2: "PascalDataset_getitem read_path no_other_area id (PascalDataset_init frame_u push_out) 0 = Inr Skip"
    by simp
  have k1: "keep_all (arg_image before_u) (arg_bboxes before_u) (arg_class_labels before_u)
       = Inr (''imgs/u.jpg'', [[Fin 0, Fin 0, Fin 1, Fin 1]], [1])"
    by (simp add: keep_all_def before_u_def)
  have k2: "push_out (arg_image before_u) (arg_bboxes before_u) (arg_class_labels before_u)
       = Inr (''imgs/u.jpg'', [[Fin 0, Fin 0, Fin (3 / 2), Fin 1]], [1])"
    by (simp add: push_out_def before_u_def)
  have m1: "map length [[Fin 0, Fin 0, Fin 1, Fin 1 :: pyfloat]] = [4]"
    and m2: "map length [[Fin 0, Fin 0, Fin (3 / 2), Fin 1 :: pyfloat]] = [4]"
    by simp_all
  from b1 k1 m1 r1 b2 k2 m2 r2 show ?thesis by (intro conjI)
qed

text \<open>
  The transform is given one box and returns none: no returned box is invalid, fewer
  valid boxes come back than went in, and \<open>__getitem__\<close> returns a sample, not the
  skip value.
\<close>

theorem getitem_dropped_box_not_skipped:
  "before_transform read_path no_other_area (PascalDataset_init frame_u drop_all) 0 = Inr before_u
   \<and> arg_bboxes before_u = [[Fin 0, Fin 0, Fin 1, Fin 1]]
   \<and> tfms (PascalDataset_init frame_u drop_all) (arg_image before_u) (arg_bboxes before_u)
        (arg_class_labels before_u) = Inr (''imgs/u.jpg'', [], [])
   \<and> filter_err is_bbox_valid [] = Inr []
   \<and> length ([] :: bbox list) < length (arg_bboxes before_u)
   \<and> PascalDataset_getitem read_path no_other_area id (PascalDataset_init frame_u drop_all) 0
       = Inr (Sample ''imgs/u.jpg''
           \<lparr>target_image_id = 0, target_boxes = [], target_labels = [],
            target_area = [Fin 1], target_iscrowd = [0]\<rparr> 0)
   \<and> PascalDataset_getitem read_path no_other_area id (PascalDataset_init frame_u drop_all) 0 \<noteq> Inr Skip"
proof -
  have g: "PascalDataset_getitem read_path no_other_area id (PascalDataset_init frame_u drop_all) 0
       = Inr (Sample ''imgs/u.jpg''
           \<lparr>target_image_id = 0, target_boxes = [], target_labels = [],
            target_area = [Fin 1], target_iscrowd = [0]\<rparr> 0)"
    by code_simp
  have b: "before_transform read_path no_other_area (PascalDataset_init frame_u drop_all) 0 = Inr before_u"
    by code_simp
  have t: "tfms (PascalDataset_init frame_u drop_all) (arg_image before_u) (arg_bboxes before_u)
        (arg_class_labels before_u) = Inr (''imgs/u.jpg'', [], [])"
    by (simp add: PascalDataset_init_def drop_all_def before_u_def)
  from g b t show ?thesis
    by (simp add: before_u_def)
qed

text \<open>
  Claim C2, at the table flattened from \<open>doc_a\<close> (a cat at \<open>(0,0,1,1)\<close> with label 1,
  a dog at \<open>(10,10,50,50)\<close> with label 2). \<open>__getitem__(0)\<close> calls the transform with
  the one box that lies in the unit square and with both labels; the areas and the crowd
  flags are those of both rows.
\<close>

theorem before_transform_labels_unfiltered:
  "before_transform read_path no_other_area (PascalDataset_init frame_a keep_all) 0
     = Inr \<lparr>arg_image = ''imgs/a.jpg'', arg_bboxes = [[Fin 0, Fin 0, Fin 1, Fin 1]],
            arg_class_labels = [1, 2], the_area = [Fin 1, Fin 1600], the_iscrowd = [0, 0]\<rparr>"
  by code_simp

end
